theory Spec2Isabelle
  imports Complex_Main "HOL-Library.Sublist"
begin

section \<open>Text primitives\<close>

text \<open>
  A Python \<open>str\<close> is modelled by the \<open>string\<close> of its UTF-8 bytes. Equality,
  concatenation and substring occurrence of well-formed texts are the same on code
  points and on their UTF-8 encoding, and every keyword of the program is ASCII.

  \<open>k in t\<close> on two strings is substring occurrence: \<open>occurs_in k t\<close> scans the
  positions of \<open>t\<close> from the left and tests whether \<open>k\<close> starts there.
\<close>

fun occurs_in :: "string \<Rightarrow> string \<Rightarrow> bool" where
  "occurs_in k [] = (k = [])"
| "occurs_in k (c # cs) = (prefix k (c # cs) \<or> occurs_in k cs)"

text \<open>
  \<open>str.lower\<close> belongs to the Python runtime, not to the repository, and its full
  Unicode case table is not reproduced here: \<open>classify_emotion\<close>, \<open>risk_score\<close> and
  \<open>chat\<close> take the lowercasing function as their first parameter \<open>lower\<close>, and the
  general theorems hold for every such function. On ASCII text \<open>str.lower\<close> maps
  \<open>A\<close>..\<open>Z\<close> to \<open>a\<close>..\<open>z\<close> and leaves every other character alone; that is
  \<open>ascii_lower\<close>, used for the concrete inputs.
\<close>

definition lower_char :: "char \<Rightarrow> char" where
  "lower_char c =
     (if 65 \<le> (of_char c :: nat) \<and> (of_char c :: nat) \<le> 90
      then char_of (of_char c + (32 :: nat)) else c)"

definition ascii_lower :: "string \<Rightarrow> string" where
  "ascii_lower s = map lower_char s"

section \<open>Emotion classifier and risk scorer\<close>

text \<open>\<open>RISK_KEYWORDS\<close>, the module-level list of \<open>main.py\<close>.\<close>

definition RISK_KEYWORDS :: "string list" where
  "RISK_KEYWORDS =
     [''suicide'', ''kill myself'', ''end it'', ''die'', ''self harm'', ''cut myself'',
      ''worthless'', ''no reason to live'']"

text \<open>
  \<open>classify_emotion\<close>: four \<open>if any(k in t for k in [...])\<close> tests in the order of
  the source, each returning its label, and the final \<open>return "neutral"\<close>.
\<close>

definition classify_emotion :: "(string \<Rightarrow> string) \<Rightarrow> string \<Rightarrow> string" where
  "classify_emotion lower text =
     (let t = lower text in
      if list_ex (\<lambda>k. occurs_in k t)
           [''happy'', ''great'', ''good'', ''awesome'', ''yay'', '':)''] then ''joy''
      else if list_ex (\<lambda>k. occurs_in k t)
           [''sad'', ''down'', ''cry'', ''depressed'', '':(''] then ''sadness''
      else if list_ex (\<lambda>k. occurs_in k t)
           [''angry'', ''mad'', ''furious'', ''annoyed''] then ''anger''
      else if list_ex (\<lambda>k. occurs_in k t)
           [''worried'', ''anxious'', ''scared'', ''nervous'', ''panic''] then ''anxiety''
      else ''neutral'')"

text \<open>
  \<open>risk_score\<close>. Python floats are modelled by the real numbers their literals
  denote: the function only takes \<open>max\<close> and \<open>min\<close> of the literals \<open>0.0\<close>,
  \<open>0.6\<close>, \<open>0.85\<close> and \<open>1.0\<close> and compares them, which IEEE-754 arithmetic does
  without rounding, and the four literals denote four distinct doubles in the same
  order. The \<open>for\<close> loop over \<open>RISK_KEYWORDS\<close> is a \<open>fold\<close> on the running score.
\<close>

definition risk_score :: "(string \<Rightarrow> string) \<Rightarrow> string \<Rightarrow> real" where
  "risk_score lower text =
     (let t = lower text;
          score = fold (\<lambda>kw score. if occurs_in kw t then max score 0.85 else score)
                    RISK_KEYWORDS 0.0;
          score = (if list_ex (\<lambda>k. occurs_in k t)
                        [''hopeless'', ''worthless'', ''hate myself'', ''can't go on'']
                   then max score 0.6 else score)
      in min 1.0 score)"

section \<open>Canned replies\<close>

text \<open>
  The right and left single quotation marks U+2019 and U+2018 that occur in the
  replies of \<open>main.py\<close>, as UTF-8 bytes.
\<close>

abbreviation rsquo :: string where
  "rsquo \<equiv> [CHR 0xE2, CHR 0x80, CHR 0x99]"

abbreviation lsquo :: string where
  "lsquo \<equiv> [CHR 0xE2, CHR 0x80, CHR 0x98]"

text \<open>\<open>EMOJI_RESPONSES\<close>, the dictionary from emotion label to base reply.\<close>

definition EMOJI_RESPONSES :: "(string \<times> string) list" where
  "EMOJI_RESPONSES =
     [(''joy'', ''I'm happy to hear that! Want a fun fact or a joke?''),
      (''sadness'', ''I'm here with you. Want to try a short breathing exercise together?''),
      (''anger'',
       ''That sounds frustrating. Want to label the feeling and take a 10-second pause?''),
      (''anxiety'',
       ''It'' @ rsquo @
       ''s okay to feel worried. Let's try box breathing: 4-in, 4-hold, 4-out, 4-hold.''),
      (''neutral'', ''I'' @ rsquo @ ''m listening. Tell me more.'')]"

datatype error = KeyError | PersistenceError

text \<open>
  \<open>base_reply = EMOJI_RESPONSES.get(emotion, EMOJI_RESPONSES["neutral"])\<close>: Python
  evaluates the default first, and the subscript raises \<open>KeyError\<close> on a missing key.
\<close>

definition base_reply :: "string \<Rightarrow> error + string" where
  "base_reply emotion =
     (case map_of EMOJI_RESPONSES ''neutral'' of
        None \<Rightarrow> Inl KeyError
      | Some dflt \<Rightarrow>
          Inr (case map_of EMOJI_RESPONSES emotion of None \<Rightarrow> dflt | Some r \<Rightarrow> r))"

text \<open>The reply literals of \<open>chat\<close>: lines 141 to 144, line 156 and line 157.\<close>

definition crisis_reply :: string where
  "crisis_reply =
     ''I'' @ rsquo @ ''m really glad you told me. You matter and you deserve help. '' @
     ''I'' @ rsquo @ ''d like to help you reach a trusted adult or a professional. '' @
     ''If you're in immediate danger, please call your local emergency number. '' @
     ''Would you like me to share a helpful message with your parent now?''"

definition hard_words_prefix :: string where
  "hard_words_prefix = ''I'' @ rsquo @ ''m noticing words that sound really hard. ''"

definition help_suffix :: string where
  "help_suffix =
     '' You can also press '' @ lsquo @ ''I need help'' @ rsquo @
     '' to contact a trusted adult.''"

section \<open>Documents and the persistence collaborator\<close>

text \<open>
  The dictionaries handed to \<open>create_document\<close> are association lists in the order
  of the dictionary literal. A timestamp is a reading of the clock, a natural number;
  \<open>datetime.now(timezone.utc)\<close> is the parameter \<open>now\<close> of \<open>chat\<close>.
\<close>

datatype field = StrV string | FloatV real | DatetimeV nat

type_synonym document = "(string \<times> field) list"

text \<open>The store: the documents written so far, each with its collection, oldest first.\<close>

type_synonym store = "(string \<times> document) list"

text \<open>
  Modelled from the spec: \<open>database.create_document\<close>, which \<open>main.py\<close> imports and
  whose module is not among the sources. The spec gives the interface
  \<open>create_document(collection_name, fields)\<close> and says that a write may fail
  (connectivity loss, validation rejection) and that the failure propagates to the
  caller. Whether a write succeeds is the collaborator's decision, the parameter
  \<open>accepts\<close>, which may depend on the store, the collection and the document: an
  accepted write appends the document to the store, a rejected one raises. The
  identifier that is returned is dropped, since \<open>chat\<close> ignores it.
\<close>

definition create_document ::
  "(store \<Rightarrow> string \<Rightarrow> document \<Rightarrow> bool) \<Rightarrow> string \<Rightarrow> document \<Rightarrow> store \<Rightarrow> error + store" where
  "create_document accepts collection_name data db =
     (if accepts db collection_name data then Inr (db @ [(collection_name, data)])
      else Inl PersistenceError)"

section \<open>The chat endpoint\<close>

record ChatRequest =
  req_child_id :: string
  req_text :: string

record ChatResponse =
  res_response :: string
  res_emotion :: string
  res_risk_score :: real

text \<open>
  \<open>chat\<close>, statement by statement: classify, score, look the base reply up, take one
  of the three branches on the score (the first two write a risk event), write the
  message, return the response. An exception of a callee ends the request: every
  \<open>Inl\<close> is passed on, together with the store as it is when the exception is
  raised, so that what a request that raises has written can be read off the result.
\<close>

definition chat ::
  "(string \<Rightarrow> string) \<Rightarrow> (store \<Rightarrow> string \<Rightarrow> document \<Rightarrow> bool) \<Rightarrow> nat \<Rightarrow>
     ChatRequest \<Rightarrow> store \<Rightarrow> (error \<times> store) + (ChatResponse \<times> store)" where
  "chat lower accepts now req db =
     (let emotion = classify_emotion lower (req_text req);
          score = risk_score lower (req_text req)
      in case base_reply emotion of
           Inl e \<Rightarrow> Inl (e, db)
         | Inr base \<Rightarrow>
             (case (if score \<ge> 0.85 then
                      (case create_document accepts ''riskevent''
                              [(''child_id'', StrV (req_child_id req)),
                               (''level'', StrV ''high''),
                               (''reason'', StrV ''Text trigger keyword''),
                               (''score'', FloatV score),
                               (''occurred_at'', DatetimeV now)] db of
                         Inl e \<Rightarrow> Inl (e, db)
                       | Inr db1 \<Rightarrow> Inr (crisis_reply, db1))
                    else if score \<ge> 0.6 then
                      (case create_document accepts ''riskevent''
                              [(''child_id'', StrV (req_child_id req)),
                               (''level'', StrV ''medium''),
                               (''reason'', StrV ''Negative self-talk''),
                               (''score'', FloatV score),
                               (''occurred_at'', DatetimeV now)] db of
                         Inl e \<Rightarrow> Inl (e, db)
                       | Inr db1 \<Rightarrow> Inr (hard_words_prefix @ base @ help_suffix, db1))
                    else Inr (base, db)) of
                Inl e \<Rightarrow> Inl e
              | Inr (reply, db1) \<Rightarrow>
                  (case create_document accepts ''message''
                          [(''child_id'', StrV (req_child_id req)),
                           (''text'', StrV (req_text req)),
                           (''emotion'', StrV emotion),
                           (''risk_score'', FloatV score),
                           (''response'', StrV reply)] db1 of
                     Inl e \<Rightarrow> Inl (e, db1)
                   | Inr db2 \<Rightarrow>
                       Inr (\<lparr>res_response = reply, res_emotion = emotion,
                              res_risk_score = score\<rparr>, db2))))"

text \<open>
  The escalation tier is the branch of \<open>chat\<close> that is taken. \<open>compose\<close> is the part
  of \<open>chat\<close> from the lookup of the base reply to the end of the \<open>if\<close> chain (lines
  137 to 167) without the two writes: the reply, and the branch as a tier.
\<close>

datatype tier = TierHigh | TierMedium | TierNone

definition compose :: "string \<Rightarrow> real \<Rightarrow> error + (string \<times> tier)" where
  "compose emotion score =
     (case base_reply emotion of
        Inl e \<Rightarrow> Inl e
      | Inr base \<Rightarrow>
          (if score \<ge> 0.85 then Inr (crisis_reply, TierHigh)
           else if score \<ge> 0.6 then Inr (hard_words_prefix @ base @ help_suffix, TierMedium)
           else Inr (base, TierNone)))"

section \<open>The classifier as the spec words it\<close>

text \<open>
  The spec's table of section 4.1: the labels in priority order, each with its keyword
  set. \<open>classify_spec\<close> follows the spec's sentence: lowercase the text and return
  the first label of the table one of whose keywords occurs in it as a substring
  (\<open>sublist\<close>: the text is some prefix, then the keyword, then some suffix), and
  \<open>neutral\<close> when no label matches. It is compared with \<open>classify_emotion\<close> below.
\<close>

definition label_keywords_spec :: "(string \<times> string list) list" where
  "label_keywords_spec =
     [(''joy'', [''happy'', ''great'', ''good'', ''awesome'', ''yay'', '':)'']),
      (''sadness'', [''sad'', ''down'', ''cry'', ''depressed'', '':('']),
      (''anger'', [''angry'', ''mad'', ''furious'', ''annoyed'']),
      (''anxiety'', [''worried'', ''anxious'', ''scared'', ''nervous'', ''panic''])]"

fun first_match_spec :: "(string \<times> string list) list \<Rightarrow> string \<Rightarrow> string" where
  "first_match_spec [] t = ''neutral''"
| "first_match_spec ((label, keywords) # rest) t =
     (if list_ex (\<lambda>k. sublist k t) keywords then label else first_match_spec rest t)"

definition classify_spec :: "(string \<Rightarrow> string) \<Rightarrow> string \<Rightarrow> string" where
  "classify_spec lower text = first_match_spec label_keywords_spec (lower text)"

section \<open>Auxiliary facts\<close>

text \<open>\<open>occurs_in\<close> decides substring occurrence.\<close>

lemma occurs_in_sublist: "occurs_in k t \<longleftrightarrow> sublist k t"
  by (induction t) (auto simp: sublist_Cons_right)

lemma fold_floor:
  "fold (\<lambda>kw score. if P kw then max score (0.85::real) else score) kws s =
     (if \<exists>kw\<in>set kws. P kw then max s 0.85 else s)"
  by (induction kws arbitrary: s) auto

lemma risk_score_cases:
  "risk_score lower text =
     (if \<exists>kw\<in>set RISK_KEYWORDS. occurs_in kw (lower text) then 0.85
      else if \<exists>k\<in>set [''hopeless'', ''worthless'', ''hate myself'', ''can't go on''].
                occurs_in k (lower text) then 0.6
      else 0)"
  by (simp add: risk_score_def Let_def fold_floor)

lemma neutral_reply_present: "\<exists>dflt. map_of EMOJI_RESPONSES ''neutral'' = Some dflt"
  by (simp add: EMOJI_RESPONSES_def)

lemma base_reply_total: "\<exists>base. base_reply emotion = Inr base"
  using neutral_reply_present by (auto simp: base_reply_def)

lemma base_reply_known:
  "map_of EMOJI_RESPONSES emotion = Some r \<Longrightarrow> base_reply emotion = Inr r"
  using neutral_reply_present by (auto simp: base_reply_def)

lemma base_reply_canned:
  assumes "base_reply emotion = Inr base"
  shows "base \<in> snd ` set EMOJI_RESPONSES"
proof -
  from neutral_reply_present obtain dflt
    where dflt: "map_of EMOJI_RESPONSES ''neutral'' = Some dflt" by blast
  show ?thesis
  proof (cases "map_of EMOJI_RESPONSES emotion")
    case None
    with assms dflt have "dflt = base" by (simp add: base_reply_def)
    with dflt have "(''neutral'', base) \<in> set EMOJI_RESPONSES" by (auto dest: map_of_SomeD)
    then show ?thesis by force
  next
    case (Some r)
    with assms dflt have "r = base" by (simp add: base_reply_def)
    with Some have "(emotion, base) \<in> set EMOJI_RESPONSES" by (auto dest: map_of_SomeD)
    then show ?thesis by force
  qed
qed

lemma crisis_reply_no_base: "\<forall>e\<in>set EMOJI_RESPONSES. \<not> occurs_in (snd e) crisis_reply"
  by code_simp

lemma compose_cases:
  "compose emotion score =
     (case base_reply emotion of Inl e \<Rightarrow> Inl e | Inr base \<Rightarrow>
        Inr (if 0.85 \<le> score then (crisis_reply, TierHigh)
             else if 0.6 \<le> score then (hard_words_prefix @ base @ help_suffix, TierMedium)
             else (base, TierNone)))"
  by (simp add: compose_def split: sum.splits)


lemma chat_result:
  assumes "chat lower accepts now req db = Inr (resp, db')"
  shows "\<exists>base. base_reply (classify_emotion lower (req_text req)) = Inr base \<and>
    (let emotion = classify_emotion lower (req_text req);
         score = risk_score lower (req_text req);
         reply = (if 0.85 \<le> score then crisis_reply
                  else if 0.6 \<le> score then hard_words_prefix @ base @ help_suffix
                  else base);
         events = (if 0.85 \<le> score then
                     [(''riskevent'',
                       [(''child_id'', StrV (req_child_id req)), (''level'', StrV ''high''),
                        (''reason'', StrV ''Text trigger keyword''), (''score'', FloatV score),
                        (''occurred_at'', DatetimeV now)])]
                   else if 0.6 \<le> score then
                     [(''riskevent'',
                       [(''child_id'', StrV (req_child_id req)), (''level'', StrV ''medium''),
                        (''reason'', StrV ''Negative self-talk''), (''score'', FloatV score),
                        (''occurred_at'', DatetimeV now)])]
                   else [])
     in resp = \<lparr>res_response = reply, res_emotion = emotion, res_risk_score = score\<rparr> \<and>
        db' = db @ events @
              [(''message'',
                [(''child_id'', StrV (req_child_id req)), (''text'', StrV (req_text req)),
                 (''emotion'', StrV emotion), (''risk_score'', FloatV score),
                 (''response'', StrV reply)])])"
  using assms
  by (auto simp: chat_def Let_def create_document_def split: sum.splits if_splits)


lemma chat_compose:
  assumes "chat lower accepts now req db = Inr (resp, db')"
  shows "\<exists>t. compose (classify_emotion lower (req_text req))
                 (risk_score lower (req_text req)) = Inr (res_response resp, t)"
  using chat_result [OF assms] by (auto simp: compose_cases Let_def)

lemma chat_new_documents:
  assumes "chat lower accepts now req db = Inr (resp, db')"
  shows "\<exists>events reply.
           db' = db @ events @
             [(''message'',
               [(''child_id'', StrV (req_child_id req)), (''text'', StrV (req_text req)),
                (''emotion'', StrV (classify_emotion lower (req_text req))),
                (''risk_score'', FloatV (risk_score lower (req_text req))),
                (''response'', StrV reply)])] \<and>
           resp = \<lparr>res_response = reply,
                    res_emotion = classify_emotion lower (req_text req),
                    res_risk_score = risk_score lower (req_text req)\<rparr> \<and>
           length events \<le> 1 \<and>
           (events = [] \<longleftrightarrow> risk_score lower (req_text req) < 0.6) \<and>
           (\<forall>ev\<in>set events. fst ev = ''riskevent'' \<and>
              map_of (snd ev) ''score'' = Some (FloatV (risk_score lower (req_text req))))"
  using chat_result [OF assms] by (auto simp: Let_def)

lemma chat_history_independent:
  assumes "chat lower accepts now req db = Inr (resp, db')"
    and "chat lower accepts2 now req db2 = Inr (resp2, db2')"
  shows "resp2 = resp \<and> drop (length db2) db2' = drop (length db) db'"
proof -
  obtain base where base: "base_reply (classify_emotion lower (req_text req)) = Inr base"
    using base_reply_total by blast
  show ?thesis
    using chat_result [OF assms(1)] chat_result [OF assms(2)] base
    by (simp add: Let_def)
qed


section \<open>The response composer\<close>


text \<open>
  C4. Every emotion has a base reply, and for every score: below 0.6 the composed
  reply is exactly that base reply; from 0.6 and below 0.85 it is the fixed "noticing
  hard words" prefix, then the base reply, then the fixed "I need help" suffix; from
  0.85 on it is the fixed crisis message, in which the base reply does not occur as a
  substring, whatever the emotion. For the emotion anxiety and the score 0.0 the reply
  is the canned anxiety reply, for the score 0.9 it is the crisis message, and the
  response that \<open>chat\<close> returns for a request is the composed reply for the emotion
  and the score of its text.
\<close>

theorem reply_shape_by_tier:
  "(\<exists>base. base_reply emotion = Inr base \<and>
      (score < 0.6 \<longrightarrow> compose emotion score = Inr (base, TierNone)) \<and>
      (0.6 \<le> score \<and> score < 0.85 \<longrightarrow>
         compose emotion score = Inr (hard_words_prefix @ base @ help_suffix, TierMedium)) \<and>
      (0.85 \<le> score \<longrightarrow> compose emotion score = Inr (crisis_reply, TierHigh)) \<and>
      \<not> occurs_in base crisis_reply) \<and>
   compose ''anxiety'' 0.0 =
     Inr (''It'' @ rsquo @
          ''s okay to feel worried. Let's try box breathing: 4-in, 4-hold, 4-out, 4-hold.'',
          TierNone) \<and>
   compose emotion 0.9 = Inr (crisis_reply, TierHigh) \<and>
   (chat lower accepts now req db = Inr (resp, db') \<longrightarrow>
      (\<exists>t. compose (classify_emotion lower (req_text req))
              (risk_score lower (req_text req)) = Inr (res_response resp, t)))"
proof -
  obtain base where base: "base_reply emotion = Inr base"
    using base_reply_total by blast
  have "base \<in> snd ` set EMOJI_RESPONSES"
    using base by (rule base_reply_canned)
  then have absent: "\<not> occurs_in base crisis_reply"
    using crisis_reply_no_base by auto
  have shapes:
    "(score < 0.6 \<longrightarrow> compose emotion score = Inr (base, TierNone)) \<and>
     (0.6 \<le> score \<and> score < 0.85 \<longrightarrow>
        compose emotion score = Inr (hard_words_prefix @ base @ help_suffix, TierMedium)) \<and>
     (0.85 \<le> score \<longrightarrow> compose emotion score = Inr (crisis_reply, TierHigh))"
    using base by (simp add: compose_cases)
  have anxiety: "compose ''anxiety'' 0.0 =
     Inr (''It'' @ rsquo @
          ''s okay to feel worried. Let's try box breathing: 4-in, 4-hold, 4-out, 4-hold.'',
          TierNone)"
    by code_simp
  have crisis: "compose emotion 0.9 = Inr (crisis_reply, TierHigh)"
    using base by (simp add: compose_cases)
  have served: "chat lower accepts now req db = Inr (resp, db') \<longrightarrow>
      (\<exists>t. compose (classify_emotion lower (req_text req))
              (risk_score lower (req_text req)) = Inr (res_response resp, t))"
    using chat_compose by blast
  from base absent shapes anxiety crisis served show ?thesis by blast
qed

theorem reply_shape_by_tier_witness:
  "(0::real) < 0.6 \<and> compose ''joy'' 0 =
      Inr (''I'm happy to hear that! Want a fun fact or a joke?'', TierNone) \<and>
   (0.6::real) \<le> 0.7 \<and> (0.7::real) < 0.85 \<and> compose ''anger'' 0.7 =
      Inr (hard_words_prefix @
           ''That sounds frustrating. Want to label the feeling and take a 10-second pause?'' @
           help_suffix, TierMedium) \<and>
   (0.85::real) \<le> 1 \<and> compose ''sadness'' 1 = Inr (crisis_reply, TierHigh) \<and>
   (\<exists>resp db' t.
      chat ascii_lower (\<lambda>d c f. True) 3
        \<lparr>req_child_id = ''kid'', req_text = ''I'm so angry and hopeless''\<rparr> [] =
        Inr (resp, db') \<and>
      compose (classify_emotion ascii_lower ''I'm so angry and hopeless'')
        (risk_score ascii_lower ''I'm so angry and hopeless'') = Inr (res_response resp, t) \<and>
      res_response resp =
        hard_words_prefix @
        ''That sounds frustrating. Want to label the feeling and take a 10-second pause?'' @
        help_suffix)"
proof -
  have joy: "base_reply ''joy'' = Inr ''I'm happy to hear that! Want a fun fact or a joke?''"
    by code_simp
  have anger: "base_reply ''anger'' =
      Inr ''That sounds frustrating. Want to label the feeling and take a 10-second pause?''"
    by code_simp
  have none: "compose ''joy'' 0 =
      Inr (''I'm happy to hear that! Want a fun fact or a joke?'', TierNone)"
    using reply_shape_by_tier [THEN conjunct1, of "''joy''" 0] joy by auto
  have medium: "compose ''anger'' 0.7 =
      Inr (hard_words_prefix @
           ''That sounds frustrating. Want to label the feeling and take a 10-second pause?'' @
           help_suffix, TierMedium)"
    using reply_shape_by_tier [THEN conjunct1, of "''anger''" "0.7"] anger by auto
  have high: "compose ''sadness'' 1 = Inr (crisis_reply, TierHigh)"
    using reply_shape_by_tier [THEN conjunct1, of "''sadness''" 1] by auto
  have run: "chat ascii_lower (\<lambda>d c f. True) 3
        \<lparr>req_child_id = ''kid'', req_text = ''I'm so angry and hopeless''\<rparr> [] =
      Inr (\<lparr>res_response = hard_words_prefix @
           ''That sounds frustrating. Want to label the feeling and take a 10-second pause?'' @
           help_suffix, res_emotion = ''anger'', res_risk_score = 0.6\<rparr>,
        [(''riskevent'',
          [(''child_id'', StrV ''kid''), (''level'', StrV ''medium''),
           (''reason'', StrV ''Negative self-talk''), (''score'', FloatV 0.6),
           (''occurred_at'', DatetimeV 3)]),
         (''message'',
          [(''child_id'', StrV ''kid''), (''text'', StrV ''I'm so angry and hopeless''),
           (''emotion'', StrV ''anger''), (''risk_score'', FloatV 0.6),
           (''response'', StrV (hard_words_prefix @
           ''That sounds frustrating. Want to label the feeling and take a 10-second pause?'' @
           help_suffix))])])"
    by code_simp
  have served: "\<exists>resp db' t.
      chat ascii_lower (\<lambda>d c f. True) 3
        \<lparr>req_child_id = ''kid'', req_text = ''I'm so angry and hopeless''\<rparr> [] =
        Inr (resp, db') \<and>
      compose (classify_emotion ascii_lower ''I'm so angry and hopeless'')
        (risk_score ascii_lower ''I'm so angry and hopeless'') = Inr (res_response resp, t) \<and>
      res_response resp =
        hard_words_prefix @
        ''That sounds frustrating. Want to label the feeling and take a 10-second pause?'' @
        help_suffix"
    using reply_shape_by_tier [where lower = ascii_lower and accepts = "\<lambda>d c f. True"
        and now = 3 and req = "\<lparr>req_child_id = ''kid'', req_text = ''I'm so angry and hopeless''\<rparr>"
        and db = "[]", THEN conjunct2, THEN conjunct2, THEN conjunct2, rule_format, OF run] run
    by auto
  have nums: "(0::real) < 0.6" "(0.6::real) \<le> 0.7" "(0.7::real) < 0.85" "(0.85::real) \<le> 1"
    by simp_all
  from none medium high served nums show ?thesis by blast
qed

section \<open>The risk scorer\<close>

text \<open>
  C2. Whatever the text, when a keyword of \<open>RISK_KEYWORDS\<close> occurs in the lowercased
  text the score is at least 0.85, and when a phrase of the secondary list occurs the
  score is at least 0.6; the first holds whether or not a secondary phrase occurs as
  well, so the secondary step never lowers a high-severity score. The score of
  "I want to kill myself" is at least 0.85. No keyword of \<open>RISK_KEYWORDS\<close> occurs in
  "I feel hopeless", and its score is at least 0.6 and below 0.85.
\<close>

theorem risk_score_floors:
  "((\<exists>kw\<in>set RISK_KEYWORDS. occurs_in kw (lower text)) \<longrightarrow> 0.85 \<le> risk_score lower text) \<and>
   ((\<exists>k\<in>set [''hopeless'', ''worthless'', ''hate myself'', ''can't go on''].
       occurs_in k (lower text)) \<longrightarrow> 0.6 \<le> risk_score lower text) \<and>
   0.85 \<le> risk_score ascii_lower ''I want to kill myself'' \<and>
   (\<forall>kw\<in>set RISK_KEYWORDS. \<not> occurs_in kw (ascii_lower ''I feel hopeless'')) \<and>
   0.6 \<le> risk_score ascii_lower ''I feel hopeless'' \<and>
   risk_score ascii_lower ''I feel hopeless'' < 0.85"
proof -
  have high: "(\<exists>kw\<in>set RISK_KEYWORDS. occurs_in kw (lower text)) \<longrightarrow>
                0.85 \<le> risk_score lower text"
    by (simp add: risk_score_cases)
  have secondary:
    "(\<exists>k\<in>set [''hopeless'', ''worthless'', ''hate myself'', ''can't go on''].
        occurs_in k (lower text)) \<longrightarrow> 0.6 \<le> risk_score lower text"
    by (simp add: risk_score_cases)
  have kill: "0.85 \<le> risk_score ascii_lower ''I want to kill myself''"
    by code_simp
  have absent: "\<forall>kw\<in>set RISK_KEYWORDS. \<not> occurs_in kw (ascii_lower ''I feel hopeless'')"
    by code_simp
  have lo: "0.6 \<le> risk_score ascii_lower ''I feel hopeless''"
    by code_simp
  have hi: "risk_score ascii_lower ''I feel hopeless'' < 0.85"
    by code_simp
  from high secondary kill absent lo hi show ?thesis by blast
qed

theorem risk_score_floors_witness:
  "(\<exists>kw\<in>set RISK_KEYWORDS. occurs_in kw (ascii_lower ''I feel WORTHLESS'')) \<and>
   (\<exists>k\<in>set [''hopeless'', ''worthless'', ''hate myself'', ''can't go on''].
       occurs_in k (ascii_lower ''I feel WORTHLESS'')) \<and>
   0.85 \<le> risk_score ascii_lower ''I feel WORTHLESS'' \<and>
   0.6 \<le> risk_score ascii_lower ''I feel WORTHLESS''"
proof -
  have h1: "\<exists>kw\<in>set RISK_KEYWORDS. occurs_in kw (ascii_lower ''I feel WORTHLESS'')"
    by code_simp
  have h2: "\<exists>k\<in>set [''hopeless'', ''worthless'', ''hate myself'', ''can't go on''].
              occurs_in k (ascii_lower ''I feel WORTHLESS'')"
    by code_simp
  from risk_score_floors [of ascii_lower "''I feel WORTHLESS''"] h1 h2
  show ?thesis by blast
qed

text \<open>
  C6. For every text the risk score lies in the closed interval from 0 to 1; the
  upper bound is the final \<open>min(1.0, score)\<close>.
\<close>

theorem risk_score_range: "0 \<le> risk_score lower text \<and> risk_score lower text \<le> 1"
  by (simp add: risk_score_cases)

text \<open>
  C10. For every text the risk score is one of the three values 0, 0.6 and 0.85, and
  each of the three is taken: by "I had a great day", by "I feel hopeless" and by
  "I want to kill myself". No score lies strictly between two of them or above 0.85.
\<close>

theorem risk_score_three_values:
  "risk_score lower text \<in> {0, 0.6, 0.85} \<and>
   risk_score ascii_lower ''I had a great day'' = 0 \<and>
   risk_score ascii_lower ''I feel hopeless'' = 0.6 \<and>
   risk_score ascii_lower ''I want to kill myself'' = 0.85"
proof -
  have "risk_score lower text \<in> {0, 0.6, 0.85}"
    by (simp add: risk_score_cases)
  moreover have "risk_score ascii_lower ''I had a great day'' = 0"
    by code_simp
  moreover have "risk_score ascii_lower ''I feel hopeless'' = 0.6"
    by code_simp
  moreover have "risk_score ascii_lower ''I want to kill myself'' = 0.85"
    by code_simp
  ultimately show ?thesis by blast
qed

section \<open>The emotion classifier\<close>

text \<open>
  C5. For every text \<open>classify_emotion\<close> returns one of the five labels joy, sadness,
  anger, anxiety and neutral, and it returns what the spec's procedure returns: the
  first label, in the order joy, sadness, anger, anxiety, one of whose keywords is a
  substring of the lowercased text, and neutral when there is none. A text with a joy
  keyword is joy whatever else it contains; "good but sad" contains the joy keyword
  "good" and the sadness keyword "sad" and is classified as joy.
\<close>

theorem classify_emotion_priority:
  "classify_emotion lower text \<in> {''joy'', ''sadness'', ''anger'', ''anxiety'', ''neutral''} \<and>
   classify_emotion lower text = classify_spec lower text \<and>
   ((\<exists>k\<in>set [''happy'', ''great'', ''good'', ''awesome'', ''yay'', '':)''].
       occurs_in k (lower text)) \<longrightarrow> classify_emotion lower text = ''joy'') \<and>
   occurs_in ''good'' (ascii_lower ''good but sad'') \<and>
   occurs_in ''sad'' (ascii_lower ''good but sad'') \<and>
   classify_emotion ascii_lower ''good but sad'' = ''joy''"
proof -
  have labels: "classify_emotion lower text \<in>
                  {''joy'', ''sadness'', ''anger'', ''anxiety'', ''neutral''}"
    by (simp add: classify_emotion_def Let_def)
  have refines: "classify_emotion lower text = classify_spec lower text"
    by (simp add: classify_emotion_def classify_spec_def label_keywords_spec_def Let_def
        occurs_in_sublist)
  have joy_first:
    "(\<exists>k\<in>set [''happy'', ''great'', ''good'', ''awesome'', ''yay'', '':)''].
        occurs_in k (lower text)) \<longrightarrow> classify_emotion lower text = ''joy''"
    by (simp add: classify_emotion_def Let_def)
  have good: "occurs_in ''good'' (ascii_lower ''good but sad'')" by code_simp
  have sad: "occurs_in ''sad'' (ascii_lower ''good but sad'')" by code_simp
  have both: "classify_emotion ascii_lower ''good but sad'' = ''joy''" by code_simp
  from labels refines joy_first good sad both show ?thesis by blast
qed

theorem classify_emotion_priority_witness:
  "(\<exists>k\<in>set [''happy'', ''great'', ''good'', ''awesome'', ''yay'', '':)''].
      occurs_in k (ascii_lower ''So SAD, yet happy'')) \<and>
   occurs_in ''sad'' (ascii_lower ''So SAD, yet happy'') \<and>
   classify_emotion ascii_lower ''So SAD, yet happy'' = ''joy''"
proof -
  have h: "\<exists>k\<in>set [''happy'', ''great'', ''good'', ''awesome'', ''yay'', '':)''].
             occurs_in k (ascii_lower ''So SAD, yet happy'')"
    by code_simp
  have s: "occurs_in ''sad'' (ascii_lower ''So SAD, yet happy'')"
    by code_simp
  from classify_emotion_priority [of ascii_lower "''So SAD, yet happy''"] h s
  show ?thesis by blast
qed

text \<open>
  C9. \<open>classify_emotion\<close> and \<open>risk_score\<close> are total functions of the text: neither
  has an error result. A text whose lowercase form contains none of the classifier's
  keywords is neutral, a text whose lowercase form contains no keyword of either risk
  lexicon has score 0, and the empty text, whose lowercase form is empty, is neutral
  with score 0.
\<close>

theorem classify_score_defaults:
  "((\<forall>k\<in>set ([''happy'', ''great'', ''good'', ''awesome'', ''yay'', '':)''] @
               [''sad'', ''down'', ''cry'', ''depressed'', '':(''] @
               [''angry'', ''mad'', ''furious'', ''annoyed''] @
               [''worried'', ''anxious'', ''scared'', ''nervous'', ''panic'']).
       \<not> occurs_in k (lower text)) \<longrightarrow> classify_emotion lower text = ''neutral'') \<and>
   ((\<forall>k\<in>set (RISK_KEYWORDS @ [''hopeless'', ''worthless'', ''hate myself'', ''can't go on'']).
       \<not> occurs_in k (lower text)) \<longrightarrow> risk_score lower text = 0) \<and>
   (lower [] = [] \<longrightarrow> classify_emotion lower [] = ''neutral'' \<and> risk_score lower [] = 0) \<and>
   classify_emotion ascii_lower [] = ''neutral'' \<and> risk_score ascii_lower [] = 0"
proof -
  have unmatched:
    "(\<forall>k\<in>set ([''happy'', ''great'', ''good'', ''awesome'', ''yay'', '':)''] @
                [''sad'', ''down'', ''cry'', ''depressed'', '':(''] @
                [''angry'', ''mad'', ''furious'', ''annoyed''] @
                [''worried'', ''anxious'', ''scared'', ''nervous'', ''panic'']).
        \<not> occurs_in k (lower text)) \<longrightarrow> classify_emotion lower text = ''neutral''"
    by (simp add: classify_emotion_def Let_def)
  have unscored:
    "(\<forall>k\<in>set (RISK_KEYWORDS @ [''hopeless'', ''worthless'', ''hate myself'', ''can't go on'']).
        \<not> occurs_in k (lower text)) \<longrightarrow> risk_score lower text = 0"
    by (auto simp: risk_score_cases)
  have no_kw: "\<forall>kw\<in>set RISK_KEYWORDS. \<not> occurs_in kw []"
    by code_simp
  have empty: "lower [] = [] \<longrightarrow>
                 classify_emotion lower [] = ''neutral'' \<and> risk_score lower [] = 0"
    using no_kw by (simp add: classify_emotion_def risk_score_cases Let_def)
  have "classify_emotion ascii_lower [] = ''neutral''" and "risk_score ascii_lower [] = 0"
    by code_simp+
  with unmatched unscored empty show ?thesis by blast
qed

theorem classify_score_defaults_witness:
  "\<not> (\<exists>k\<in>set ([''happy'', ''great'', ''good'', ''awesome'', ''yay'', '':)''] @
                [''sad'', ''down'', ''cry'', ''depressed'', '':(''] @
                [''angry'', ''mad'', ''furious'', ''annoyed''] @
                [''worried'', ''anxious'', ''scared'', ''nervous'', ''panic'']).
        occurs_in k (ascii_lower ''Hello THERE'')) \<and>
   \<not> (\<exists>k\<in>set (RISK_KEYWORDS @
                [''hopeless'', ''worthless'', ''hate myself'', ''can't go on'']).
        occurs_in k (ascii_lower ''Hello THERE'')) \<and>
   ascii_lower [] = [] \<and>
   classify_emotion ascii_lower ''Hello THERE'' = ''neutral'' \<and>
   risk_score ascii_lower ''Hello THERE'' = 0"
proof -
  have h1: "\<forall>k\<in>set ([''happy'', ''great'', ''good'', ''awesome'', ''yay'', '':)''] @
              [''sad'', ''down'', ''cry'', ''depressed'', '':(''] @
              [''angry'', ''mad'', ''furious'', ''annoyed''] @
              [''worried'', ''anxious'', ''scared'', ''nervous'', ''panic'']).
      \<not> occurs_in k (ascii_lower ''Hello THERE'')"
    by code_simp
  have h2: "\<forall>k\<in>set (RISK_KEYWORDS @
                [''hopeless'', ''worthless'', ''hate myself'', ''can't go on'']).
      \<not> occurs_in k (ascii_lower ''Hello THERE'')"
    by code_simp
  have h3: "ascii_lower [] = []"
    by (simp add: ascii_lower_def)
  from classify_score_defaults [of ascii_lower "''Hello THERE''"] h1 h2 h3
  show ?thesis by blast
qed

section \<open>The writes of a chat request\<close>

text \<open>
  A request is processed when \<open>chat\<close> returns its response. The store then consists
  of the store before the request followed by the documents the request wrote, in the
  order of the writes.

  C3. For every processed request: when the tier of its score is \<open>high\<close> the request
  wrote exactly one document to the collection \<open>riskevent\<close>, with level "high", reason
  "Text trigger keyword", the score and the time; when the tier is \<open>medium\<close> it wrote
  exactly one, with level "medium" and reason "Negative self-talk"; when the tier is
  \<open>none\<close> it wrote none.
\<close>

theorem chat_risk_event_by_tier:
  assumes "chat lower accepts now req db = Inr (resp, db')"
  shows "\<exists>reply t new.
           compose (classify_emotion lower (req_text req))
             (risk_score lower (req_text req)) = Inr (reply, t) \<and>
           db' = db @ new \<and>
           filter (\<lambda>d. fst d = ''riskevent'') new =
             (case t of
                TierHigh \<Rightarrow>
                  [(''riskevent'',
                    [(''child_id'', StrV (req_child_id req)), (''level'', StrV ''high''),
                     (''reason'', StrV ''Text trigger keyword''),
                     (''score'', FloatV (risk_score lower (req_text req))),
                     (''occurred_at'', DatetimeV now)])]
              | TierMedium \<Rightarrow>
                  [(''riskevent'',
                    [(''child_id'', StrV (req_child_id req)), (''level'', StrV ''medium''),
                     (''reason'', StrV ''Negative self-talk''),
                     (''score'', FloatV (risk_score lower (req_text req))),
                     (''occurred_at'', DatetimeV now)])]
              | TierNone \<Rightarrow> [])"
  using chat_result [OF assms] by (auto simp: compose_cases Let_def)

theorem chat_risk_event_by_tier_witness:
  "\<exists>resp db' new.
     chat ascii_lower (\<lambda>d c f. True) 7
       \<lparr>req_child_id = ''kid'', req_text = ''I want to DIE''\<rparr> [] = Inr (resp, db') \<and>
     db' = [] @ new \<and>
     filter (\<lambda>d. fst d = ''riskevent'') new =
       [(''riskevent'',
         [(''child_id'', StrV ''kid''), (''level'', StrV ''high''),
          (''reason'', StrV ''Text trigger keyword''), (''score'', FloatV 0.85),
          (''occurred_at'', DatetimeV 7)])]"
proof -
  have run: "chat ascii_lower (\<lambda>d c f. True) 7
     \<lparr>req_child_id = ''kid'', req_text = ''I want to DIE''\<rparr> [] =
   Inr (\<lparr>res_response = crisis_reply, res_emotion = ''neutral'', res_risk_score = 0.85\<rparr>,
        [(''riskevent'',
          [(''child_id'', StrV ''kid''), (''level'', StrV ''high''),
           (''reason'', StrV ''Text trigger keyword''), (''score'', FloatV 0.85),
           (''occurred_at'', DatetimeV 7)]),
         (''message'',
          [(''child_id'', StrV ''kid''), (''text'', StrV ''I want to DIE''),
           (''emotion'', StrV ''neutral''), (''risk_score'', FloatV 0.85),
           (''response'', StrV crisis_reply)])])"
    by code_simp
  have score: "risk_score ascii_lower ''I want to DIE'' = 0.85"
    by code_simp
  have tier: "compose (classify_emotion ascii_lower ''I want to DIE'')
                (risk_score ascii_lower ''I want to DIE'') = Inr (crisis_reply, TierHigh)"
    by code_simp
  from chat_risk_event_by_tier [OF run] tier score run show ?thesis
    by auto
qed

text \<open>
  C7. For every processed request, the \<open>score\<close> of each risk event it wrote equals the
  \<open>risk_score\<close> of the message it wrote, both being the scorer's output on the text
  of the request, which is also the score in the response. The tier is determined by
  the score alone: two compositions at the same score have the same tier whatever the
  emotions. The request's response and the documents it writes do not depend on the
  store it finds, hence not on earlier messages of the same child.
\<close>

theorem risk_event_score_is_message_score:
  assumes "chat lower accepts now req db = Inr (resp, db')"
  shows "(\<exists>events msg.
            db' = db @ events @ [(''message'', msg)] \<and>
            map_of msg ''risk_score'' = Some (FloatV (risk_score lower (req_text req))) \<and>
            (\<forall>ev\<in>set events. fst ev = ''riskevent'' \<and>
               map_of (snd ev) ''score'' = map_of msg ''risk_score'')) \<and>
         res_risk_score resp = risk_score lower (req_text req) \<and>
         (\<forall>e1 e2 s r1 r2 t1 t2.
            compose e1 s = Inr (r1, t1) \<and> compose e2 s = Inr (r2, t2) \<longrightarrow> t1 = t2) \<and>
         (\<forall>accepts2 db2 resp2 db2'.
            chat lower accepts2 now req db2 = Inr (resp2, db2') \<longrightarrow>
            resp2 = resp \<and> drop (length db2) db2' = drop (length db) db')"
proof -
  from chat_new_documents [OF assms] obtain events reply where
    new: "db' = db @ events @
             [(''message'',
               [(''child_id'', StrV (req_child_id req)), (''text'', StrV (req_text req)),
                (''emotion'', StrV (classify_emotion lower (req_text req))),
                (''risk_score'', FloatV (risk_score lower (req_text req))),
                (''response'', StrV reply)])]"
    and resp: "resp = \<lparr>res_response = reply,
                    res_emotion = classify_emotion lower (req_text req),
                    res_risk_score = risk_score lower (req_text req)\<rparr>"
    and events: "\<forall>ev\<in>set events. fst ev = ''riskevent'' \<and>
              map_of (snd ev) ''score'' = Some (FloatV (risk_score lower (req_text req)))"
    by blast
  have stored: "\<exists>events msg.
            db' = db @ events @ [(''message'', msg)] \<and>
            map_of msg ''risk_score'' = Some (FloatV (risk_score lower (req_text req))) \<and>
            (\<forall>ev\<in>set events. fst ev = ''riskevent'' \<and>
               map_of (snd ev) ''score'' = map_of msg ''risk_score'')"
    using new events
    by (intro exI [of _ events]
        exI [of _ "[(''child_id'', StrV (req_child_id req)), (''text'', StrV (req_text req)),
                (''emotion'', StrV (classify_emotion lower (req_text req))),
                (''risk_score'', FloatV (risk_score lower (req_text req))),
                (''response'', StrV reply)]"]) simp
  have returned: "res_risk_score resp = risk_score lower (req_text req)"
    using resp by simp
  have tier: "\<forall>e1 e2 s r1 r2 t1 t2.
            compose e1 s = Inr (r1, t1) \<and> compose e2 s = Inr (r2, t2) \<longrightarrow> t1 = t2"
    by (auto simp: compose_cases split: sum.splits if_splits)
  have history: "\<forall>accepts2 db2 resp2 db2'.
            chat lower accepts2 now req db2 = Inr (resp2, db2') \<longrightarrow>
            resp2 = resp \<and> drop (length db2) db2' = drop (length db) db'"
    using chat_history_independent [OF assms] by blast
  from stored returned tier history show ?thesis by blast
qed

theorem risk_event_score_is_message_score_witness:
  "let req = \<lparr>req_child_id = ''kid'', req_text = ''I feel hopeless''\<rparr>;
       resp = \<lparr>res_response = hard_words_prefix @ ''I'' @ rsquo @
                ''m listening. Tell me more.'' @ help_suffix,
              res_emotion = ''neutral'', res_risk_score = 0.6\<rparr>;
       db' = [(''riskevent'',
             [(''child_id'', StrV ''kid''), (''level'', StrV ''medium''),
              (''reason'', StrV ''Negative self-talk''), (''score'', FloatV 0.6),
              (''occurred_at'', DatetimeV 5)]),
            (''message'',
             [(''child_id'', StrV ''kid''), (''text'', StrV ''I feel hopeless''),
              (''emotion'', StrV ''neutral''), (''risk_score'', FloatV 0.6),
              (''response'', StrV (hard_words_prefix @ ''I'' @ rsquo @
                 ''m listening. Tell me more.'' @ help_suffix))])]
   in chat ascii_lower (\<lambda>d c f. True) 5 req [] = Inr (resp, db') \<and>
      (\<exists>events msg.
         db' = [] @ events @ [(''message'', msg)] \<and>
         map_of msg ''risk_score'' = Some (FloatV (risk_score ascii_lower (req_text req))) \<and>
         (\<forall>ev\<in>set events. fst ev = ''riskevent'' \<and>
            map_of (snd ev) ''score'' = map_of msg ''risk_score'')) \<and>
      res_risk_score resp = risk_score ascii_lower (req_text req) \<and>
      risk_score ascii_lower (req_text req) = 0.6"
proof -
  have run: "chat ascii_lower (\<lambda>d c f. True) 5 \<lparr>req_child_id = ''kid'', req_text = ''I feel hopeless''\<rparr> [] =
     Inr (\<lparr>res_response = hard_words_prefix @ ''I'' @ rsquo @
                ''m listening. Tell me more.'' @ help_suffix,
              res_emotion = ''neutral'', res_risk_score = 0.6\<rparr>,
          [(''riskevent'',
             [(''child_id'', StrV ''kid''), (''level'', StrV ''medium''),
              (''reason'', StrV ''Negative self-talk''), (''score'', FloatV 0.6),
              (''occurred_at'', DatetimeV 5)]),
            (''message'',
             [(''child_id'', StrV ''kid''), (''text'', StrV ''I feel hopeless''),
              (''emotion'', StrV ''neutral''), (''risk_score'', FloatV 0.6),
              (''response'', StrV (hard_words_prefix @ ''I'' @ rsquo @
                 ''m listening. Tell me more.'' @ help_suffix))])])"
    by code_simp
  have score: "risk_score ascii_lower (req_text \<lparr>req_child_id = ''kid'', req_text = ''I feel hopeless''\<rparr>) = 0.6"
    by code_simp
  note conclusion = risk_event_score_is_message_score [OF run]
  show ?thesis
    unfolding Let_def
    by (rule conjI [OF run conjI [OF conclusion [THEN conjunct1]
          conjI [OF conclusion [THEN conjunct2, THEN conjunct1] score]]])
qed




end
